theory Spec2Isabelle
  imports
    Main
    "HOL-Library.Char_ord"
    "HOL-Library.List_Lexorder"
    "HOL-Library.Product_Lexorder"
    "HOL-Library.Sublist"
begin

section \<open>Strings and numbers of the host language\<close>

text \<open>
  A Python \<open>str\<close> is modelled as a \<^typ>\<open>string\<close> whose characters are the code points
  U+0000 to U+00FF; every literal of \<open>app.py\<close> lies in that range (\<open>CHR 0xF1\<close> is the
  n with tilde, \<open>CHR 0xF3\<close> the o with acute accent, \<open>CHR 0xD3\<close> its capital). The order
  on strings (\<open>Char_ord\<close>, \<open>List_Lexorder\<close>) is the order by code points that Python uses.
\<close>

definition whitespace :: "string" where
  \<comment> \<open>the code points below U+0100 for which \<open>str.isspace\<close> holds\<close>
  "whitespace = [CHR 0x09, CHR 0x0A, CHR 0x0B, CHR 0x0C, CHR 0x0D,
                 CHR 0x1C, CHR 0x1D, CHR 0x1E, CHR 0x1F, CHR 0x20, CHR 0x85, CHR 0xA0]"

definition is_space :: "char \<Rightarrow> bool" where
  "is_space c = (c \<in> set whitespace)"

definition strip :: "string \<Rightarrow> string" where
  \<comment> \<open>\<open>str.strip()\<close>\<close>
  "strip s = rev (dropWhile is_space (rev (dropWhile is_space s)))"

definition is_digit :: "char \<Rightarrow> bool" where
  "is_digit c = (CHR ''0'' \<le> c \<and> c \<le> CHR ''9'')"

definition digit_char :: "nat \<Rightarrow> char" where
  \<comment> \<open>the decimal digit \<open>d\<close>, for \<open>d < 10\<close>\<close>
  "digit_char d = ''0123456789'' ! d"

function str_nat :: "nat \<Rightarrow> string" where
  "str_nat n = (if n < 10 then [digit_char n] else str_nat (n div 10) @ [digit_char (n mod 10)])"
  by pat_completeness auto
termination
  by (relation "measure id") auto

declare str_nat.simps [simp del]

definition str_int :: "int \<Rightarrow> string" where
  \<comment> \<open>\<open>str(n)\<close> for an integer\<close>
  "str_int i = (if i < 0 then CHR ''-'' # str_nat (nat (- i)) else str_nat (nat i))"

primrec digits_value :: "nat \<Rightarrow> string \<Rightarrow> nat" where
  "digits_value acc [] = acc"
| "digits_value acc (c # cs) = digits_value (10 * acc + (of_char c - 48)) cs"

text \<open>
  A parsed decimal literal stands for \<open>mantissa * 10 ^ exponent\<close>. The parser reads
  \<open>[sign] digits [. digits] [(e|E) [sign] digits]\<close> with at least one digit in the mantissa,
  the grammar shared by Python's \<open>float\<close> and by the parser behind \<open>pandas.to_numeric\<close>.
  The value is kept exact. The literals \<open>inf\<close> and \<open>nan\<close>, digit separators and the
  rounding of a binary double are not modelled: \<open>int(float(s))\<close> raises on \<open>inf\<close> and
  \<open>nan\<close>, which in \<open>map_age\<close> is the same branch as a literal that does not parse.
\<close>

record decimal =
  mantissa :: int
  exponent :: int

definition take_sign :: "string \<Rightarrow> bool \<times> string" where
  "take_sign s =
     (case s of
        [] \<Rightarrow> (False, s)
      | c # r \<Rightarrow> if c = CHR ''-'' then (True, r) else if c = CHR ''+'' then (False, r) else (False, s))"

definition parse_exponent :: "string \<Rightarrow> int option" where
  "parse_exponent s =
     (case s of
        [] \<Rightarrow> Some 0
      | c # r \<Rightarrow>
          if c = CHR ''e'' \<or> c = CHR ''E'' then
            (case take_sign r of
               (neg, d) \<Rightarrow>
                 if d \<noteq> [] \<and> dropWhile is_digit d = [] then
                   Some (if neg then - int (digits_value 0 d) else int (digits_value 0 d))
                 else None)
          else None)"

definition parse_fraction :: "string \<Rightarrow> string \<times> string" where
  "parse_fraction s =
     (case s of
        [] \<Rightarrow> ([], s)
      | c # r \<Rightarrow> if c = CHR ''.'' then (takeWhile is_digit r, dropWhile is_digit r) else ([], s))"

definition parse_decimal :: "string \<Rightarrow> decimal option" where
  "parse_decimal s =
     (case take_sign s of
        (neg, u) \<Rightarrow>
          (case parse_fraction (dropWhile is_digit u) of
             (fp, rest) \<Rightarrow>
               if takeWhile is_digit u = [] \<and> fp = [] then None
               else
                 (case parse_exponent rest of
                    None \<Rightarrow> None
                  | Some e \<Rightarrow>
                      Some \<lparr>mantissa =
                              (if neg then - int (digits_value 0 (takeWhile is_digit u @ fp))
                               else int (digits_value 0 (takeWhile is_digit u @ fp))),
                            exponent = e - int (length fp)\<rparr>)))"

definition py_float :: "string \<Rightarrow> decimal option" where
  \<comment> \<open>\<open>float(s)\<close>; \<open>None\<close> is the \<open>ValueError\<close>\<close>
  "py_float s = parse_decimal (strip s)"

definition py_int :: "decimal \<Rightarrow> int" where
  \<comment> \<open>\<open>int(x)\<close> on a number: truncation towards zero\<close>
  "py_int x =
     (if 0 \<le> exponent x then mantissa x * 10 ^ nat (exponent x)
      else sgn (mantissa x) * (\<bar>mantissa x\<bar> div 10 ^ nat (- exponent x)))"

section \<open>The age-group labeler\<close>

definition age_map :: "(string \<times> string) list" where
  "age_map =
    [(''0'', ''Mortalidad neonatal 0-4''),
     (''1'', ''Mortalidad neonatal 0-4''),
     (''2'', ''Mortalidad neonatal 0-4''),
     (''3'', ''Mortalidad neonatal 0-4''),
     (''4'', ''Mortalidad neonatal 0-4''),
     (''5'', ''Mortalidad infantil 1-11 meses''),
     (''6'', ''Mortalidad infantil 1-11 meses''),
     (''7'', ''Primera infancia 1-4''),
     (''8'', ''Primera infancia 1-4''),
     (''9'', ''Ni'' @ [CHR 0xF1] @ ''ez 5-14''),
     (''10'', ''Ni'' @ [CHR 0xF1] @ ''ez 5-14''),
     (''11'', ''Adolescencia 15-19''),
     (''12'', ''Juventud 20-29''),
     (''13'', ''Juventud 20-29''),
     (''14'', ''Adultez temprana 30-44''),
     (''15'', ''Adultez temprana 30-44''),
     (''16'', ''Adultez temprana 30-44''),
     (''17'', ''Adultez intermedia 45-59''),
     (''18'', ''Adultez intermedia 45-59''),
     (''19'', ''Adultez intermedia 45-59''),
     (''20'', ''Vejez 60-84''),
     (''21'', ''Vejez 60-84''),
     (''22'', ''Vejez 60-84''),
     (''23'', ''Vejez 60-84''),
     (''24'', ''Vejez 60-84''),
     (''25'', ''Longevidad 85+''),
     (''26'', ''Longevidad 85+''),
     (''27'', ''Longevidad 85+''),
     (''28'', ''Longevidad 85+''),
     (''29'', ''Edad desconocida / Sin informaci'' @ [CHR 0xF3] @ ''n'')]"

definition dict_get :: "('k \<times> 'v) list \<Rightarrow> 'k \<Rightarrow> 'v \<Rightarrow> 'v" where
  \<comment> \<open>\<open>d.get(k, default)\<close>\<close>
  "dict_get d k dflt = (case map_of d k of None \<Rightarrow> dflt | Some v \<Rightarrow> v)"

definition map_age :: "string \<Rightarrow> string" where
  "map_age code =
     dict_get age_map
       (case py_float code of
          Some x \<Rightarrow> str_int (py_int x)
        | None \<Rightarrow> strip code)
       ''Sin info''"

section \<open>The homicide pattern\<close>

text \<open>
  The fragment of regular expressions that the pattern \<open>X9[0-9]|X95|X9\<close> uses.
  \<open>rmatch r s\<close> lists what is left of \<open>s\<close> after each way of matching \<open>r\<close> at its
  start; \<open>re_search\<close> tries every start position, as \<open>re.search\<close> does.
\<close>

datatype regex =
    Lit char
  | CharRange char char
  | Cat regex regex
  | Alt regex regex

fun rmatch :: "regex \<Rightarrow> string \<Rightarrow> string list" where
  "rmatch (Lit c) s = (case s of [] \<Rightarrow> [] | x # xs \<Rightarrow> if x = c then [xs] else [])"
| "rmatch (CharRange lo hi) s =
     (case s of [] \<Rightarrow> [] | x # xs \<Rightarrow> if lo \<le> x \<and> x \<le> hi then [xs] else [])"
| "rmatch (Cat r1 r2) s = concat (map (rmatch r2) (rmatch r1 s))"
| "rmatch (Alt r1 r2) s = rmatch r1 s @ rmatch r2 s"

fun re_search :: "regex \<Rightarrow> string \<Rightarrow> bool" where
  "re_search r [] = (rmatch r [] \<noteq> [])"
| "re_search r (x # xs) = (rmatch r (x # xs) \<noteq> [] \<or> re_search r xs)"

definition homicide_pattern :: "regex" where
  "homicide_pattern =
     Alt (Alt (Cat (Cat (Lit CHR ''X'') (Lit CHR ''9'')) (CharRange CHR ''0'' CHR ''9''))
              (Cat (Cat (Lit CHR ''X'') (Lit CHR ''9'')) (Lit CHR ''5'')))
         (Cat (Lit CHR ''X'') (Lit CHR ''9''))"

definition is_homicide :: "string \<Rightarrow> bool" where
  \<comment> \<open>\<open>str.contains(r'X9[0-9]|X95|X9', na=False)\<close> on one cause code\<close>
  "is_homicide code = re_search homicide_pattern code"

section \<open>Tables\<close>

text \<open>
  A cell of a sheet as \<open>pandas.read_excel\<close> delivers it: empty (\<open>NaN\<close>), an integer or
  a text. Cells of floating-point, date and boolean type are not modelled. A table has its
  column names, already normalised as lines 59 to 61 of \<open>app.py\<close> leave them
  (\<open>str(c).strip()\<close>) and pairwise different, and its rows in order; a row gives the cell
  of each column. The code reads a row only at a column that \<open>find_col\<close> has found.
\<close>

datatype cell = NaN | IntV int | StrV string

text \<open>The exceptions that end the program while it builds its table or its page.\<close>

datatype error = IntCastingNaNError | KeyError | TypeError

record table =
  columns :: "string list"
  rows :: "(string \<Rightarrow> cell) list"

definition empty_table :: "table" where
  \<comment> \<open>\<open>pd.DataFrame()\<close>\<close>
  "empty_table = \<lparr>columns = [], rows = []\<rparr>"

datatype excel_file = NotFound | Unreadable | Workbook table

fun safe_read_excel :: "excel_file \<Rightarrow> table" where
  "safe_read_excel (Workbook t) = t"
| "safe_read_excel Unreadable = empty_table"
| "safe_read_excel NotFound = empty_table"

primrec find_col :: "table \<Rightarrow> string list \<Rightarrow> string option" where
  "find_col df [] = None"
| "find_col df (c # candidates) =
     (if c \<in> set (columns df) then Some c else find_col df candidates)"

definition NOFETAL_cod_depto :: "table \<Rightarrow> string option" where
  "NOFETAL_cod_depto df_nofetal =
     find_col df_nofetal [''COD_DEPARTAMENTO'', ''COD_DPTO'', ''COD_DEPTO'', ''COD_DANE'']"

definition NOFETAL_cod_mpio :: "table \<Rightarrow> string option" where
  "NOFETAL_cod_mpio df_nofetal =
     find_col df_nofetal [''COD_MUNICIPIO'', ''COD_MPIO'', ''COD_MPIO_A'', ''COD_MUN'']"

definition NOFETAL_sexo :: "table \<Rightarrow> string option" where
  "NOFETAL_sexo df_nofetal = find_col df_nofetal [''SEXO'']"

definition NOFETAL_mes :: "table \<Rightarrow> string option" where
  "NOFETAL_mes df_nofetal = find_col df_nofetal [''MES'']"

definition NOFETAL_grupoedad :: "table \<Rightarrow> string option" where
  "NOFETAL_grupoedad df_nofetal = find_col df_nofetal [''GRUPO_EDAD1'', ''GRUPO_EDAD'']"

definition NOFETAL_codmuerte :: "table \<Rightarrow> string option" where
  "NOFETAL_codmuerte df_nofetal =
     find_col df_nofetal [''COD_MUERTE'', ''COD_MUERTE'', ''COD_MUER'']"

definition DIV_cod_depto :: "table \<Rightarrow> string option" where
  "DIV_cod_depto df_divipola =
     find_col df_divipola [''COD_DEPARTAMENTO'', ''COD_DEPTO'', ''COD_DANE'']"

definition DIV_cod_mpio :: "table \<Rightarrow> string option" where
  "DIV_cod_mpio df_divipola = find_col df_divipola [''COD_MUNICIPIO'', ''COD_MPIO'']"

definition DIV_depto :: "table \<Rightarrow> string option" where
  "DIV_depto df_divipola =
     find_col df_divipola [''DEPARTAMENTO'', ''NOMBRE_DEPARTAMENTO'', ''NOMBRE_DPT'']"

definition DIV_mpio :: "table \<Rightarrow> string option" where
  "DIV_mpio df_divipola = find_col df_divipola [''MUNICIPIO'', ''NOMBRE_MUNICIPIO'']"

definition CODES_code_col :: "table \<Rightarrow> string option" where
  "CODES_code_col df_codes =
     find_col df_codes
       [''C'' @ [CHR 0xD3] @ ''DIGO'', ''CODIGO'', ''C'' @ [CHR 0xF3] @ ''digo'',
        ''C'' @ [CHR 0xF3] @ ''digo_CIE'', ''C'' @ [CHR 0xF3] @ ''digo_CIE10'', ''Unnamed: 0'']"

definition CODES_name_col :: "table \<Rightarrow> string option" where
  "CODES_name_col df_codes =
     find_col df_codes
       [''NOMBRE'', ''NOMBRE_CAUSA'', ''DESCRIPCION'', ''NOMBRE_CIE'', ''Descripcion'', ''Nombre'']"

section \<open>Preparing the main table\<close>

fun astype_str :: "cell \<Rightarrow> string" where
  \<comment> \<open>\<open>astype(str)\<close> on one cell, as pandas 1 and 2 do it: an empty cell becomes
      the text \<open>nan\<close>\<close>
  "astype_str NaN = ''nan''"
| "astype_str (IntV n) = str_int n"
| "astype_str (StrV s) = s"

definition code_str :: "cell \<Rightarrow> string" where
  \<comment> \<open>\<open>.astype(str).str.strip()\<close> on one cell\<close>
  "code_str c = strip (astype_str c)"

definition ascii_space :: "string" where
  \<comment> \<open>the white space that the number parser of pandas skips on both sides\<close>
  "ascii_space = [CHR 0x20, CHR 0x09, CHR 0x0A, CHR 0x0B, CHR 0x0C, CHR 0x0D]"

definition skip_space :: "string \<Rightarrow> string" where
  "skip_space s =
     rev (dropWhile (\<lambda>c. c \<in> set ascii_space) (rev (dropWhile (\<lambda>c. c \<in> set ascii_space) s)))"

text \<open>
  \<open>pd.to_numeric(errors="coerce")\<close> on one cell gives a number, an infinity or nothing.
  Besides the numbers it reads, the parser of pandas takes the texts \<open>inf\<close> and
  \<open>infinity\<close>, with or without a sign and in either case, for an infinity; every other
  text that is not a number is coerced to \<open>NaN\<close>, and so is a numeral whose value is
  beyond the doubles (the parser reports a range error for it).
\<close>

datatype numeric = Missing | Finite decimal | Infinite

definition too_big :: "decimal \<Rightarrow> bool" where
  \<comment> \<open>a value of magnitude \<open>2 ^ 1024\<close> or more\<close>
  "too_big x =
     (if 0 \<le> exponent x then 2 ^ 1024 \<le> \<bar>mantissa x\<bar> * 10 ^ nat (exponent x)
      else 2 ^ 1024 * 10 ^ nat (- exponent x) \<le> \<bar>mantissa x\<bar>)"

definition lower :: "string \<Rightarrow> string" where
  \<comment> \<open>\<open>str.lower()\<close> on the letters that the infinity texts use\<close>
  "lower s = map (\<lambda>c. dict_get (zip ''INFTY'' ''infty'') c c) s"

definition inf_texts :: "string list" where
  "inf_texts = [''inf'', ''+inf'', ''-inf'', ''infinity'', ''+infinity'', ''-infinity'']"

fun to_numeric :: "cell \<Rightarrow> numeric" where
  "to_numeric NaN = Missing"
| "to_numeric (IntV n) = Finite \<lparr>mantissa = n, exponent = 0\<rparr>"
| "to_numeric (StrV s) =
     (case parse_decimal (skip_space s) of
        Some x \<Rightarrow> if too_big x then Missing else Finite x
      | None \<Rightarrow> if lower s \<in> set inf_texts then Infinite else Missing)"

fun fillna_zero :: "numeric \<Rightarrow> numeric" where
  \<comment> \<open>\<open>.fillna(0)\<close> on one number\<close>
  "fillna_zero Missing = Finite \<lparr>mantissa = 0, exponent = 0\<rparr>"
| "fillna_zero (Finite x) = Finite x"
| "fillna_zero Infinite = Infinite"

text \<open>
  \<open>.astype(int)\<close> gives 64-bit integers. It raises on a value that is not finite. A
  number is cut to its integer part, and one that lies outside the 64-bit range comes out
  as \<open>- 2 ^ 63\<close>, as the conversion of a double does. Up to \<open>2 ^ 53\<close> in magnitude every
  integer is also a double and the value of a cell does not depend on the other cells of
  its column. Beyond that it does in the code (\<open>to_numeric\<close> makes the column one of
  signed or unsigned integers or of doubles, by all its cells), which the model, working
  cell by cell and with exact values, does not follow; the statements about the value of
  a month stay within \<open>2 ^ 53\<close>.
\<close>

fun astype_int :: "numeric \<Rightarrow> error + int" where
  "astype_int Missing = Inl IntCastingNaNError"
| "astype_int Infinite = Inl IntCastingNaNError"
| "astype_int (Finite x) =
     Inr (if - (2 ^ 63) \<le> py_int x \<and> py_int x < 2 ^ 63 then py_int x else - (2 ^ 63))"

definition mes_num :: "cell \<Rightarrow> error + int" where
  \<comment> \<open>\<open>pd.to_numeric(errors="coerce").fillna(0).astype(int)\<close> of line 103, on one cell\<close>
  "mes_num c = astype_int (fillna_zero (to_numeric c))"

text \<open>
  A row of the working table after lines 90 to 120: the six columns that these lines
  add, and the columns that the sheet brought along (\<open>sheet\<close>, which has no value at a
  name that is not a column of the sheet). Of the latter the code reads again only those
  that are called like a name column of the geography table (lines 135 and 136). Where
  line 103 raises, the program ends there and there is no table: \<open>load\<close> below gives the
  error, and the month that the row gets here is not used.
\<close>

record prepared =
  COD_DEPARTAMENTO_STR :: string
  COD_MUNICIPIO_STR :: string
  MES_NUM :: int
  SEXO :: string
  GRUPO_EDAD1 :: string
  COD_MUERTE_STR :: string
  sheet :: "string \<Rightarrow> cell option"

definition prepare_row :: "table \<Rightarrow> (string \<Rightarrow> cell) \<Rightarrow> prepared" where
  "prepare_row df_nofetal r =
     \<lparr>COD_DEPARTAMENTO_STR =
        (case NOFETAL_cod_depto df_nofetal of Some c \<Rightarrow> code_str (r c) | None \<Rightarrow> ''''),
      COD_MUNICIPIO_STR =
        (case NOFETAL_cod_mpio df_nofetal of Some c \<Rightarrow> code_str (r c) | None \<Rightarrow> ''''),
      MES_NUM =
        (case NOFETAL_mes df_nofetal of
           Some c \<Rightarrow> (case mes_num (r c) of Inr n \<Rightarrow> n | Inl e \<Rightarrow> 0)
         | None \<Rightarrow> 0),
      SEXO =
        (case NOFETAL_sexo df_nofetal of Some c \<Rightarrow> code_str (r c) | None \<Rightarrow> ''No disponible''),
      GRUPO_EDAD1 =
        (case NOFETAL_grupoedad df_nofetal of Some c \<Rightarrow> code_str (r c) | None \<Rightarrow> ''''),
      COD_MUERTE_STR =
        (case NOFETAL_codmuerte df_nofetal of Some c \<Rightarrow> code_str (r c) | None \<Rightarrow> ''''),
      sheet = (\<lambda>c. if c \<in> set (columns df_nofetal) then Some (r c) else None)\<rparr>"

definition prepare :: "table \<Rightarrow> prepared list" where
  "prepare df_nofetal = map (prepare_row df_nofetal) (rows df_nofetal)"

section \<open>The two left joins\<close>

text \<open>
  \<open>left.merge(right, how="left")\<close>: the rows of the left table in their order, each once
  for every row of the right table with an equal key, in the right table's order, and once
  with empty right columns when no right row has its key.
\<close>

definition merge_left :: "'a list \<Rightarrow> 'b list \<Rightarrow> ('a \<Rightarrow> 'b \<Rightarrow> bool) \<Rightarrow> ('a \<times> 'b option) list" where
  "merge_left left right on =
     concat (map (\<lambda>l. case filter (on l) right of
                          [] \<Rightarrow> [(l, None)]
                        | m # ms \<Rightarrow> map (\<lambda>g. (l, Some g)) (m # ms)) left)"

definition fillna :: "cell \<Rightarrow> cell \<Rightarrow> cell" where
  "fillna c dflt = (if c = NaN then dflt else c)"

definition merged_cell :: "(string \<Rightarrow> cell) option \<Rightarrow> string \<Rightarrow> cell" where
  \<comment> \<open>a right column of the merged table: empty where no right row matched\<close>
  "merged_cell m c = (case m of None \<Rightarrow> NaN | Some g \<Rightarrow> g c)"

definition name_cell :: "prepared \<Rightarrow> (string \<Rightarrow> cell) option \<Rightarrow> string \<Rightarrow> cell" where
  \<comment> \<open>\<open>df[c]\<close> after the merge of line 128, for a name column \<open>c\<close> of the geography
      table: with \<open>suffixes=("", "_DIV")\<close> a column of the sheet that is called \<open>c\<close> keeps
      the name and the geography column becomes \<open>c_DIV\<close>\<close>
  "name_cell l m c = (case sheet l c of Some own \<Rightarrow> own | None \<Rightarrow> merged_cell m c)"

record located = prepared +
  DEPARTAMENTO :: cell
  MUNICIPIO :: cell

definition locate :: "prepared \<Rightarrow> cell \<Rightarrow> cell \<Rightarrow> located" where
  "locate r d m = prepared.extend r (located.fields d m)"

definition DIV_cols :: "table \<Rightarrow> (string \<times> string \<times> string \<times> string) option" where
  \<comment> \<open>the guard \<open>DIV_cod_depto and DIV_cod_mpio and DIV_depto and DIV_mpio\<close>\<close>
  "DIV_cols df_divipola =
     (case DIV_cod_depto df_divipola of None \<Rightarrow> None | Some cd \<Rightarrow>
      case DIV_cod_mpio df_divipola of None \<Rightarrow> None | Some cm \<Rightarrow>
      case DIV_depto df_divipola of None \<Rightarrow> None | Some nd \<Rightarrow>
      case DIV_mpio df_divipola of None \<Rightarrow> None | Some nm \<Rightarrow> Some (cd, cm, nd, nm))"

definition merge_divipola :: "table \<Rightarrow> prepared list \<Rightarrow> located list" where
  "merge_divipola df_divipola df =
     (case DIV_cols df_divipola of
        Some (cd, cm, nd, nm) \<Rightarrow>
          map (\<lambda>(l, m). locate l
                 (fillna (name_cell l m nd) (StrV ''Departamento desconocido''))
                 (fillna (name_cell l m nm) (StrV ''Municipio desconocido'')))
            (merge_left df (rows df_divipola)
               (\<lambda>l g. COD_DEPARTAMENTO_STR l = code_str (g cd) \<and>
                      COD_MUNICIPIO_STR l = code_str (g cm)))
      | None \<Rightarrow>
          map (\<lambda>l. locate l (StrV ''Departamento desconocido'') (StrV ''Municipio desconocido'')) df)"

record caused = located +
  CAUSA_NOMBRE :: string

definition name_cause :: "located \<Rightarrow> string \<Rightarrow> caused" where
  "name_cause r n = located.extend r (caused.fields n)"

definition CODES_cols :: "table \<Rightarrow> (string \<times> string) option" where
  \<comment> \<open>the guard of line 144\<close>
  "CODES_cols df_codes =
     (case CODES_code_col df_codes of None \<Rightarrow> None | Some cc \<Rightarrow>
      case CODES_name_col df_codes of None \<Rightarrow> None | Some nc \<Rightarrow>
        if cc \<in> set (columns df_codes) \<and> nc \<in> set (columns df_codes) then Some (cc, nc) else None)"

definition merge_codes :: "table \<Rightarrow> located list \<Rightarrow> caused list" where
  "merge_codes df_codes df =
     (case CODES_cols df_codes of
        Some (cc, nc) \<Rightarrow>
          map (\<lambda>(l, m). name_cause l
                 (case m of None \<Rightarrow> COD_MUERTE_STR l | Some g \<Rightarrow> code_str (g nc)))
            (merge_left df (rows df_codes) (\<lambda>l g. COD_MUERTE_STR l = code_str (g cc)))
      | None \<Rightarrow>
          map (\<lambda>l. name_cause l
                 (if COD_MUERTE_STR l = '''' then ''No clasificada'' else COD_MUERTE_STR l)) df)"

record canonical = caused +
  GRUPO_EDAD_LABEL :: string

definition label_age :: "caused \<Rightarrow> canonical" where
  "label_age r = caused.extend r (canonical.fields (map_age (GRUPO_EDAD1 r)))"

definition pipeline :: "table \<Rightarrow> table \<Rightarrow> table \<Rightarrow> canonical list" where
  \<comment> \<open>lines 90 to 199: the table \<open>df\<close> that the dashboard works on\<close>
  "pipeline df_nofetal df_divipola df_codes =
     map label_age (merge_codes df_codes (merge_divipola df_divipola (prepare df_nofetal)))"

text \<open>
  Two of these lines can raise, and then the program ends before it has a table. Line 103
  raises when a cell of the month column is an infinity. Line 153 reads the name column of
  the cause table from the merged table; when the sheet has a column of that name the
  merge (with its default suffixes) has renamed both, and the read raises.
\<close>

fun first_error :: "(error + 'a) list \<Rightarrow> error option" where
  "first_error [] = None"
| "first_error (Inl e # xs) = Some e"
| "first_error (Inr v # xs) = first_error xs"

definition mes_error :: "table \<Rightarrow> error option" where
  "mes_error df_nofetal =
     (case NOFETAL_mes df_nofetal of
        None \<Rightarrow> None
      | Some c \<Rightarrow> first_error (map (\<lambda>r. mes_num (r c)) (rows df_nofetal)))"

definition name_error :: "table \<Rightarrow> table \<Rightarrow> error option" where
  "name_error df_nofetal df_codes =
     (case CODES_cols df_codes of
        None \<Rightarrow> None
      | Some (cc, nc) \<Rightarrow> if nc \<in> set (columns df_nofetal) then Some KeyError else None)"

definition load :: "table \<Rightarrow> table \<Rightarrow> table \<Rightarrow> error + canonical list" where
  "load df_nofetal df_divipola df_codes =
     (case mes_error df_nofetal of
        Some e \<Rightarrow> Inl e
      | None \<Rightarrow>
          (case name_error df_nofetal df_codes of
             Some e \<Rightarrow> Inl e
           | None \<Rightarrow> Inr (pipeline df_nofetal df_divipola df_codes)))"

section \<open>The callback \<open>update_all\<close>\<close>

text \<open>
  The value of the dropdown reaches the callback as \<open>None\<close> or as a scalar. Python takes
  \<open>None\<close>, the empty string and the number zero for false in \<open>if selected_dept\<close>.
\<close>

definition truthy :: "cell option \<Rightarrow> bool" where
  "truthy v =
     (case v of
        None \<Rightarrow> False
      | Some NaN \<Rightarrow> True
      | Some (IntV n) \<Rightarrow> n \<noteq> 0
      | Some (StrV s) \<Rightarrow> s \<noteq> [])"

definition filter_dept :: "canonical list \<Rightarrow> cell option \<Rightarrow> canonical list" where
  \<comment> \<open>the table \<open>dff\<close> of lines 276 to 278; an empty cell is equal to nothing\<close>
  "filter_dept df selected_dept =
     (if truthy selected_dept \<and> selected_dept \<noteq> Some (StrV ''_ALL_'') then
        filter (\<lambda>r. DEPARTAMENTO r \<noteq> NaN \<and> Some (DEPARTAMENTO r) = selected_dept) df
      else df)"

text \<open>
  \<open>groupby(key).size().reset_index()\<close>: one row per key that occurs, with the number of
  rows that have it, in ascending order of the keys; rows whose key is empty belong to
  no group. pandas orders keys of mixed type with the numbers before the texts.
\<close>

fun cell_rank :: "cell \<Rightarrow> nat \<times> int \<times> string" where
  "cell_rank (IntV n) = (0, n, [])"
| "cell_rank (StrV s) = (1, 0, s)"
| "cell_rank NaN = (2, 0, [])"

fun notna :: "cell \<Rightarrow> cell option" where
  "notna NaN = None"
| "notna (IntV n) = Some (IntV n)"
| "notna (StrV s) = Some (StrV s)"

definition groupby_size :: "('r \<Rightarrow> 'k option) \<Rightarrow> ('k \<Rightarrow> 'o::linorder) \<Rightarrow> 'r list \<Rightarrow> ('k \<times> nat) list" where
  "groupby_size key rank dff =
     map (\<lambda>k. (k, length (filter (\<lambda>r. key r = Some k) dff)))
       (sort_key rank (remdups (List.map_filter key dff)))"

text \<open>
  \<open>sort_values\<close> on the count. Rows with equal counts keep the order of the grouped table
  here; the source leaves their order to the sorting routine of the library.
\<close>

definition sort_ascending :: "('k \<times> nat) list \<Rightarrow> ('k \<times> nat) list" where
  "sort_ascending g = sort_key snd g"

definition sort_descending :: "('k \<times> nat) list \<Rightarrow> ('k \<times> nat) list" where
  "sort_descending g = sort_key (\<lambda>kn. - int (snd kn)) g"

text \<open>The eight outputs of the callback; a figure is the table it plots.\<close>

record outputs =
  geo_msg :: string
  map_fig :: "(cell \<times> nat) list"
  fig_mes :: "(int \<times> nat) list"
  fig_homicidios :: "(cell \<times> nat) list"
  fig_low10 :: "(cell \<times> nat) list"
  fig_stack :: "((cell \<times> string) \<times> nat) list"
  fig_hist :: "(string \<times> nat) list"
  table_top_causas :: "((string \<times> string) \<times> nat) list"

definition update_all :: "canonical list \<Rightarrow> cell option \<Rightarrow> outputs" where
  "update_all df selected_dept =
     (let dff = filter_dept df selected_dept in
      \<lparr>geo_msg = [],
       map_fig = groupby_size (\<lambda>r. notna (DEPARTAMENTO r)) cell_rank dff,
       fig_mes = groupby_size (\<lambda>r. Some (MES_NUM r)) (\<lambda>k. k) dff,
       fig_homicidios =
         take 5 (sort_descending
           (groupby_size (\<lambda>r. notna (MUNICIPIO r)) cell_rank
              (filter (\<lambda>r. is_homicide (COD_MUERTE_STR r)) dff))),
       fig_low10 =
         take 10 (sort_ascending (groupby_size (\<lambda>r. notna (MUNICIPIO r)) cell_rank dff)),
       fig_stack =
         groupby_size (\<lambda>r. map_option (\<lambda>d. (d, SEXO r)) (notna (DEPARTAMENTO r)))
           (\<lambda>k. (cell_rank (fst k), snd k)) dff,
       fig_hist = groupby_size (\<lambda>r. Some (GRUPO_EDAD_LABEL r)) (\<lambda>k. k) dff,
       table_top_causas =
         take 10 (sort_descending
           (groupby_size (\<lambda>r. Some (COD_MUERTE_STR r, CAUSA_NOMBRE r)) (\<lambda>k. k) dff))\<rparr>)"

definition total_muertes :: "('k \<times> nat) list \<Rightarrow> nat" where
  \<comment> \<open>the sum of the count column of an aggregate\<close>
  "total_muertes g = sum_list (map snd g)"

section \<open>The page\<close>







section \<open>Notions used in the statements\<close>



definition CODES_names :: "table \<Rightarrow> string \<Rightarrow> string list" where
  \<comment> \<open>the descriptions that the cause table holds for a code, in the table's order\<close>
  "CODES_names df_codes code =
     (case CODES_cols df_codes of
        Some (cc, nc) \<Rightarrow>
          map (\<lambda>g. code_str (g nc)) (filter (\<lambda>g. code_str (g cc) = code) (rows df_codes))
      | None \<Rightarrow> [])"


definition department_totals :: "canonical list \<Rightarrow> nat" where
  \<comment> \<open>one run of the callback per department name of the table; the sum of the totals of
      the counts by department\<close>
  "department_totals df =
     sum_list (map (\<lambda>d. total_muertes (map_fig (update_all df (Some d))))
                 (remdups (map DEPARTAMENTO df)))"

subsection \<open>Sample sheets\<close>

definition row_of :: "(string \<times> cell) list \<Rightarrow> string \<Rightarrow> cell" where
  \<comment> \<open>a row written as the list of its cells\<close>
  "row_of kvs c = (case map_of kvs c of None \<Rightarrow> NaN | Some v \<Rightarrow> v)"

definition nofetal_ex :: "table" where
  "nofetal_ex =
     \<lparr>columns = [''COD_DEPARTAMENTO'', ''COD_MUNICIPIO'', ''MES'', ''SEXO'', ''GRUPO_EDAD1'',
                 ''COD_MUERTE''],
      rows =
        [row_of [(''COD_DEPARTAMENTO'', StrV ''05''), (''COD_MUNICIPIO'', StrV ''001''),
                 (''MES'', StrV ''3''), (''SEXO'', IntV 1), (''GRUPO_EDAD1'', IntV 7),
                 (''COD_MUERTE'', StrV ''X954'')],
         row_of [(''COD_DEPARTAMENTO'', StrV ''05''), (''COD_MUNICIPIO'', StrV ''001''),
                 (''MES'', IntV 13), (''SEXO'', IntV 2), (''GRUPO_EDAD1'', StrV ''7.0''),
                 (''COD_MUERTE'', StrV ''I219'')],
         row_of [(''COD_DEPARTAMENTO'', StrV ''08''), (''COD_MUNICIPIO'', StrV ''001''),
                 (''MES'', StrV ''marzo''), (''SEXO'', IntV 1), (''GRUPO_EDAD1'', NaN),
                 (''COD_MUERTE'', StrV ''X95'')]]\<rparr>"


definition divipola_ex :: "table" where
  "divipola_ex =
     \<lparr>columns = [''COD_DEPARTAMENTO'', ''COD_MUNICIPIO'', ''DEPARTAMENTO'', ''MUNICIPIO''],
      rows =
        [row_of [(''COD_DEPARTAMENTO'', StrV ''05''), (''COD_MUNICIPIO'', StrV ''001''),
                 (''DEPARTAMENTO'', StrV ''ANTIOQUIA''), (''MUNICIPIO'', StrV ''MEDELLIN'')],
         row_of [(''COD_DEPARTAMENTO'', StrV ''08''), (''COD_MUNICIPIO'', StrV ''001''),
                 (''DEPARTAMENTO'', StrV ''ATLANTICO''), (''MUNICIPIO'', StrV ''BARRANQUILLA'')]]\<rparr>"


definition divipola_all :: "table" where
  \<comment> \<open>a department whose name is the text that the dropdown uses for "Todos"\<close>
  "divipola_all =
     \<lparr>columns = [''COD_DEPARTAMENTO'', ''COD_MUNICIPIO'', ''DEPARTAMENTO'', ''MUNICIPIO''],
      rows =
        [row_of [(''COD_DEPARTAMENTO'', StrV ''05''), (''COD_MUNICIPIO'', StrV ''001''),
                 (''DEPARTAMENTO'', StrV ''_ALL_''), (''MUNICIPIO'', StrV ''MEDELLIN'')],
         row_of [(''COD_DEPARTAMENTO'', StrV ''08''), (''COD_MUNICIPIO'', StrV ''001''),
                 (''DEPARTAMENTO'', StrV ''ATLANTICO''), (''MUNICIPIO'', StrV ''BARRANQUILLA'')]]\<rparr>"

definition codes_ex :: "table" where
  "codes_ex =
     \<lparr>columns = [''CODIGO'', ''NOMBRE''],
      rows =
        [row_of [(''CODIGO'', StrV ''X954''), (''NOMBRE'', StrV ''Agresion con disparo '')],
         row_of [(''CODIGO'', StrV ''I219''), (''NOMBRE'', StrV ''Infarto agudo del miocardio'')]]\<rparr>"

definition table_ex :: "canonical list" where
  "table_ex = pipeline nofetal_ex divipola_ex codes_ex"

definition table_all :: "canonical list" where
  "table_all = pipeline nofetal_ex divipola_all codes_ex"



definition nofetal_gap :: "table" where
  \<comment> \<open>every column the code looks for, with empty cells, and a column of its own that is
      called like the department name column of the geography table\<close>
  "nofetal_gap =
     \<lparr>columns = [''COD_DEPARTAMENTO'', ''COD_MUNICIPIO'', ''MES'', ''SEXO'', ''GRUPO_EDAD1'',
                 ''COD_MUERTE'', ''DEPARTAMENTO''],
      rows = [row_of [(''DEPARTAMENTO'', StrV ''META'')]]\<rparr>"


section \<open>The age-group labeler: properties\<close>

lemmas labeler_defs =
  map_age_def py_float_def strip_def is_space_def whitespace_def parse_decimal_def
  take_sign_def parse_fraction_def parse_exponent_def is_digit_def py_int_def str_int_def
  digit_char_def dict_get_def str_nat.simps

text \<open>
  C6. The labeler gives \<open>Primera infancia 1-4\<close> for the codes \<open>7\<close>, \<open>7.0\<close> and \<open>7\<close>
  between blanks, and the label \<open>Sin info\<close> for the code \<open>99\<close> and for the empty string.
\<close>

theorem map_age_examples:
  "map_age ''7'' = ''Primera infancia 1-4'' \<and>
   map_age ''7.0'' = ''Primera infancia 1-4'' \<and>
   map_age '' 7 '' = ''Primera infancia 1-4'' \<and>
   map_age ''99'' = ''Sin info'' \<and>
   map_age '''' = ''Sin info''"
proof -
  have "map_age ''7'' = ''Primera infancia 1-4''"
    by (simp add: labeler_defs age_map_def)
  moreover have "map_age ''7.0'' = ''Primera infancia 1-4''"
    by (simp add: labeler_defs age_map_def)
  moreover have "map_age '' 7 '' = ''Primera infancia 1-4''"
    by (simp add: labeler_defs age_map_def)
  moreover have "map_age ''99'' = ''Sin info''"
    by (simp add: labeler_defs age_map_def)
  moreover have "map_age '''' = ''Sin info''"
    by (simp add: labeler_defs age_map_def)
  ultimately show ?thesis by blast
qed









section \<open>The homicide pattern: properties\<close>

lemma rmatch_homicide_pattern:
  "rmatch homicide_pattern s \<noteq> [] \<longleftrightarrow> (\<exists>v. s = ''X9'' @ v)"
proof (cases s)
  case Nil
  then show ?thesis by (simp add: homicide_pattern_def)
next
  case (Cons a t)
  show ?thesis
  proof (cases t)
    case Nil
    with Cons show ?thesis by (simp add: homicide_pattern_def)
  next
    case (Cons b u)
    with \<open>s = a # t\<close> show ?thesis
      by (auto simp add: homicide_pattern_def split: list.splits)
  qed
qed

lemma infix_Cons:
  "(\<exists>u v. x # xs = u @ p @ v) \<longleftrightarrow> (\<exists>v. x # xs = p @ v) \<or> (\<exists>u v. xs = u @ p @ v)"
proof
  assume "\<exists>u v. x # xs = u @ p @ v"
  then obtain u v where uv: "x # xs = u @ p @ v" by blast
  show "(\<exists>v. x # xs = p @ v) \<or> (\<exists>u v. xs = u @ p @ v)"
  proof (cases u)
    case Nil
    with uv show ?thesis by auto
  next
    case (Cons y ys)
    with uv have "xs = ys @ p @ v" by simp
    then show ?thesis by blast
  qed
next
  assume "(\<exists>v. x # xs = p @ v) \<or> (\<exists>u v. xs = u @ p @ v)"
  then show "\<exists>u v. x # xs = u @ p @ v"
  proof
    assume "\<exists>v. x # xs = p @ v"
    then obtain v where "x # xs = [] @ p @ v" by auto
    then show ?thesis by blast
  next
    assume "\<exists>u v. xs = u @ p @ v"
    then obtain u v where "xs = u @ p @ v" by blast
    then have "x # xs = (x # u) @ p @ v" by simp
    then show ?thesis by blast
  qed
qed

lemma re_search_homicide_pattern:
  "re_search homicide_pattern s \<longleftrightarrow> (\<exists>u v. s = u @ ''X9'' @ v)"
proof (induction s)
  case Nil
  show ?case by (simp add: homicide_pattern_def)
next
  case (Cons x xs)
  show ?case
    using Cons rmatch_homicide_pattern [of "x # xs"] infix_Cons [of x xs "''X9''"]
    by simp
qed

text \<open>
  C4. A cause code matches the pattern \<open>X9[0-9]|X95|X9\<close>, searched anywhere in it and with
  the case kept, exactly when it contains \<open>X9\<close>. The codes \<open>X95\<close> and \<open>X900\<close> match,
  \<open>X88\<close> does not.
\<close>

theorem homicide_pattern_contains_X9:
  "(is_homicide code \<longleftrightarrow> (\<exists>u v. code = u @ ''X9'' @ v)) \<and>
   is_homicide ''X95'' \<and> is_homicide ''X900'' \<and> \<not> is_homicide ''X88''"
proof -
  have "is_homicide ''X95''" by (simp add: is_homicide_def homicide_pattern_def)
  moreover have "is_homicide ''X900''" by (simp add: is_homicide_def homicide_pattern_def)
  moreover have "\<not> is_homicide ''X88''" by (simp add: is_homicide_def homicide_pattern_def)
  moreover have "is_homicide code \<longleftrightarrow> (\<exists>u v. code = u @ ''X9'' @ v)"
    by (simp add: is_homicide_def re_search_homicide_pattern)
  ultimately show ?thesis by blast
qed

section \<open>The left join: properties\<close>























section \<open>The records of the table: properties\<close>








































lemma nofetal_gap_cells:
  "(rows nofetal_gap ! 0) ''COD_DEPARTAMENTO'' = NaN"
  "(rows nofetal_gap ! 0) ''COD_MUNICIPIO'' = NaN"
  "(rows nofetal_gap ! 0) ''MES'' = NaN"
  "(rows nofetal_gap ! 0) ''SEXO'' = NaN"
  "(rows nofetal_gap ! 0) ''GRUPO_EDAD1'' = NaN"
  "(rows nofetal_gap ! 0) ''COD_MUERTE'' = NaN"
  "(rows nofetal_gap ! 0) ''DEPARTAMENTO'' = StrV ''META''"
  by (simp_all add: nofetal_gap_def row_of_def)



lemma mes_error_gap: "mes_error nofetal_gap = None"
  by code_simp

lemma name_error_gap: "name_error nofetal_gap codes_ex = None"
  by code_simp

lemma load_gap:
  "load nofetal_gap divipola_ex codes_ex = Inr (pipeline nofetal_gap divipola_ex codes_ex)"
  by (simp add: load_def mes_error_gap name_error_gap)


lemma pipeline_gap_fields:
  "map COD_DEPARTAMENTO_STR (pipeline nofetal_gap divipola_ex codes_ex) = [''nan'']"
  "map COD_MUNICIPIO_STR (pipeline nofetal_gap divipola_ex codes_ex) = [''nan'']"
  "map MES_NUM (pipeline nofetal_gap divipola_ex codes_ex) = [0]"
  "map SEXO (pipeline nofetal_gap divipola_ex codes_ex) = [''nan'']"
  "map GRUPO_EDAD1 (pipeline nofetal_gap divipola_ex codes_ex) = [''nan'']"
  "map COD_MUERTE_STR (pipeline nofetal_gap divipola_ex codes_ex) = [''nan'']"
  "map DEPARTAMENTO (pipeline nofetal_gap divipola_ex codes_ex) = [StrV ''META'']"
  "map MUNICIPIO (pipeline nofetal_gap divipola_ex codes_ex) = [StrV ''Municipio desconocido'']"
  "map CAUSA_NOMBRE (pipeline nofetal_gap divipola_ex codes_ex) = [''nan'']"
  "map GRUPO_EDAD_LABEL (pipeline nofetal_gap divipola_ex codes_ex) = [''Sin info'']"
  by code_simp+


text \<open>
  The sheet \<open>nofetal_gap\<close> has the six columns and one row, whose six cells are empty.
  The sex of its record is not the default \<open>No disponible\<close> and its codes and its age
  group are not the default empty string: they are the text \<open>nan\<close>.
\<close>

theorem canonical_fields_default_counterexample:
  "load nofetal_gap divipola_ex codes_ex = Inr (pipeline nofetal_gap divipola_ex codes_ex) \<and>
   (rows nofetal_gap ! 0) ''SEXO'' = NaN \<and>
   (rows nofetal_gap ! 0) ''GRUPO_EDAD1'' = NaN \<and>
   (rows nofetal_gap ! 0) ''COD_MUERTE'' = NaN \<and>
   map SEXO (pipeline nofetal_gap divipola_ex codes_ex) = [''nan''] \<and>
   map SEXO (pipeline nofetal_gap divipola_ex codes_ex) \<noteq> [''No disponible''] \<and>
   map GRUPO_EDAD1 (pipeline nofetal_gap divipola_ex codes_ex) = [''nan''] \<and>
   map GRUPO_EDAD1 (pipeline nofetal_gap divipola_ex codes_ex) \<noteq> [[]] \<and>
   map COD_MUERTE_STR (pipeline nofetal_gap divipola_ex codes_ex) = [''nan''] \<and>
   map COD_MUERTE_STR (pipeline nofetal_gap divipola_ex codes_ex) \<noteq> [[]]"
  by (intro conjI) (simp_all add: load_gap pipeline_gap_fields nofetal_gap_cells)

section \<open>The cause join: properties\<close>




lemma codes_ex_names: "CODES_names codes_ex ''X954'' = [''Agresion con disparo'']"
  by code_simp





section \<open>The month: properties\<close>


















































section \<open>The callback: properties\<close>

lemma count_by_key:
  "finite K \<Longrightarrow>
   (\<Sum>k\<in>K. length (filter (\<lambda>r. g r = k \<and> Q r) xs)) = length (filter (\<lambda>r. g r \<in> K \<and> Q r) xs)"
proof (induction xs)
  case Nil
  show ?case by simp
next
  case (Cons x xs)
  have "(\<Sum>k\<in>K. length (filter (\<lambda>r. g r = k \<and> Q r) (x # xs))) =
        (\<Sum>k\<in>K. (if g x = k \<and> Q x then 1 else 0) + length (filter (\<lambda>r. g r = k \<and> Q r) xs))"
    by (intro sum.cong) simp_all
  also have "\<dots> = (\<Sum>k\<in>K. if g x = k \<and> Q x then 1 else 0) +
                   (\<Sum>k\<in>K. length (filter (\<lambda>r. g r = k \<and> Q r) xs))"
    by (rule sum.distrib)
  also have "(\<Sum>k\<in>K. if g x = k \<and> Q x then 1 else 0) = (if g x \<in> K \<and> Q x then 1 else (0::nat))"
  proof (cases "Q x")
    case True
    then have "(\<Sum>k\<in>K. if g x = k \<and> Q x then 1 else 0) = (\<Sum>k\<in>K. if g x = k then 1 else (0::nat))"
      by simp
    also have "\<dots> = (if g x \<in> K then 1 else 0)"
      using Cons.prems by (rule sum.delta')
    finally show ?thesis using True by simp
  next
    case False
    then show ?thesis by simp
  qed
  finally show ?case using Cons by simp
qed

lemma sum_list_distinct_keys:
  "distinct ks \<Longrightarrow> sum_list (map f ks) = (\<Sum>k\<in>set ks. f k)"
  by (rule sum_list_distinct_conv_sum_set)

lemma total_groupby_size:
  "total_muertes (groupby_size key rank dff) = length (filter (\<lambda>r. key r \<noteq> None) dff)"
proof -
  let ?ks = "sort_key rank (remdups (List.map_filter key dff))"
  have d: "distinct ?ks" by (simp add: distinct_sort)
  have "set (List.map_filter key dff) = {k. \<exists>r\<in>set dff. key r = Some k}"
    by (induction dff) (auto simp add: map_filter_simps split: option.splits)
  then have s: "set ?ks = {k. \<exists>r\<in>set dff. key r = Some k}"
    by simp
  have "total_muertes (groupby_size key rank dff) =
        sum_list (map (\<lambda>k. length (filter (\<lambda>r. key r = Some k) dff)) ?ks)"
    by (simp add: total_muertes_def groupby_size_def comp_def)
  also have "\<dots> = (\<Sum>k\<in>set ?ks. length (filter (\<lambda>r. key r = Some k) dff))"
    using d by (rule sum_list_distinct_keys)
  also have "\<dots> = (\<Sum>k\<in>Some ` set ?ks. length (filter (\<lambda>r. key r = k \<and> True) dff))"
    by (simp add: sum.reindex)
  also have "\<dots> = length (filter (\<lambda>r. key r \<in> Some ` set ?ks \<and> True) dff)"
    by (rule count_by_key) simp
  also have "\<dots> = length (filter (\<lambda>r. key r \<noteq> None) dff)"
  proof -
    have "filter (\<lambda>r. key r \<in> Some ` set ?ks \<and> True) dff = filter (\<lambda>r. key r \<noteq> None) dff"
      unfolding s by (rule filter_cong) (auto simp add: image_iff)
    then show ?thesis by simp
  qed
  finally show ?thesis .
qed

lemma notna_eq_None: "notna c = None \<longleftrightarrow> c = NaN"
  by (cases c) simp_all

lemma total_map_fig:
  "total_muertes (map_fig (update_all df selected_dept)) =
     length (filter (\<lambda>r. DEPARTAMENTO r \<noteq> NaN) (filter_dept df selected_dept))"
  by (simp add: update_all_def Let_def total_groupby_size notna_eq_None)

lemma filter_dept_all: "filter_dept df (Some (StrV ''_ALL_'')) = df"
  by (simp add: filter_dept_def)

lemma filter_dept_falsy: "\<not> truthy selected_dept \<Longrightarrow> filter_dept df selected_dept = df"
  by (simp add: filter_dept_def)

lemma department_totals_count:
  assumes "list_all (\<lambda>r. truthy (Some (DEPARTAMENTO r)) \<and> DEPARTAMENTO r \<noteq> StrV ''_ALL_'') df"
  shows "department_totals df = length (filter (\<lambda>r. DEPARTAMENTO r \<noteq> NaN) df)"
proof -
  let ?ds = "remdups (map DEPARTAMENTO df)"
  have sel: "truthy (Some d) \<and> Some d \<noteq> Some (StrV ''_ALL_'')" if "d \<in> set ?ds" for d
    using that assms by (auto simp add: list_all_iff)
  have one: "total_muertes (map_fig (update_all df (Some d))) =
             length (filter (\<lambda>r. DEPARTAMENTO r = d \<and> DEPARTAMENTO r \<noteq> NaN) df)"
    if "d \<in> set ?ds" for d
  proof -
    have "filter_dept df (Some d) =
          filter (\<lambda>r. DEPARTAMENTO r \<noteq> NaN \<and> Some (DEPARTAMENTO r) = Some d) df"
      using sel [OF that] by (simp add: filter_dept_def)
    then have "total_muertes (map_fig (update_all df (Some d))) =
               length (filter (\<lambda>r. DEPARTAMENTO r \<noteq> NaN)
                 (filter (\<lambda>r. DEPARTAMENTO r \<noteq> NaN \<and> Some (DEPARTAMENTO r) = Some d) df))"
      by (simp only: total_map_fig)
    also have "\<dots> = length (filter (\<lambda>r. DEPARTAMENTO r = d \<and> DEPARTAMENTO r \<noteq> NaN) df)"
      by (simp add: conj_commute cong: conj_cong)
    finally show ?thesis .
  qed
  have "department_totals df =
        sum_list (map (\<lambda>d. length (filter (\<lambda>r. DEPARTAMENTO r = d \<and> DEPARTAMENTO r \<noteq> NaN) df)) ?ds)"
    unfolding department_totals_def by (rule arg_cong [where f = sum_list]) (simp add: one)
  also have "\<dots> = (\<Sum>d\<in>set ?ds. length (filter (\<lambda>r. DEPARTAMENTO r = d \<and> DEPARTAMENTO r \<noteq> NaN) df))"
    by (rule sum_list_distinct_keys) simp
  also have "\<dots> = length (filter (\<lambda>r. DEPARTAMENTO r \<in> set ?ds \<and> DEPARTAMENTO r \<noteq> NaN) df)"
    by (rule count_by_key) simp
  also have "\<dots> = length (filter (\<lambda>r. DEPARTAMENTO r \<noteq> NaN) df)"
  proof -
    have "filter (\<lambda>r. DEPARTAMENTO r \<in> set ?ds \<and> DEPARTAMENTO r \<noteq> NaN) df =
          filter (\<lambda>r. DEPARTAMENTO r \<noteq> NaN) df"
      by (rule filter_cong) auto
    then show ?thesis by simp
  qed
  finally show ?thesis .
qed

text \<open>
  C5, as the code has it. For every table in which no department name is the text
  \<open>_ALL_\<close> that the dropdown uses for all departments, nor a value that Python takes for
  false (the empty string, the number zero), the total of the counts by department
  computed for \<open>_ALL_\<close> is the sum of the totals computed by one run of the callback per
  department name of the table.
\<close>

theorem department_totals_partition:
  "list_all (\<lambda>r. truthy (Some (DEPARTAMENTO r)) \<and> DEPARTAMENTO r \<noteq> StrV ''_ALL_'') df \<Longrightarrow>
   total_muertes (map_fig (update_all df (Some (StrV ''_ALL_'')))) = department_totals df"
  by (simp only: total_map_fig filter_dept_all department_totals_count)

lemma table_ex_departments:
  "map DEPARTAMENTO table_ex = [StrV ''ANTIOQUIA'', StrV ''ANTIOQUIA'', StrV ''ATLANTICO'']"
  by code_simp

lemma table_ex_names_ok:
  "list_all (\<lambda>r. truthy (Some (DEPARTAMENTO r)) \<and> DEPARTAMENTO r \<noteq> StrV ''_ALL_'') table_ex"
proof -
  have "list_all (\<lambda>d. truthy (Some d) \<and> d \<noteq> StrV ''_ALL_'') (map DEPARTAMENTO table_ex)"
    unfolding table_ex_departments by (simp add: truthy_def)
  then show ?thesis by (simp add: list_all_iff)
qed

lemma table_ex_total: "total_muertes (map_fig (update_all table_ex (Some (StrV ''_ALL_'')))) = 3"
  by code_simp

theorem department_totals_partition_witness:
  "list_all (\<lambda>r. truthy (Some (DEPARTAMENTO r)) \<and> DEPARTAMENTO r \<noteq> StrV ''_ALL_'') table_ex \<and>
   total_muertes (map_fig (update_all table_ex (Some (StrV ''_ALL_'')))) = department_totals table_ex \<and>
   department_totals table_ex = 3"
proof -
  have e: "total_muertes (map_fig (update_all table_ex (Some (StrV ''_ALL_'')))) =
           department_totals table_ex"
    using table_ex_names_ok by (rule department_totals_partition)
  then have "department_totals table_ex = 3"
    by (simp only: table_ex_total [symmetric])
  with table_ex_names_ok e show ?thesis by (intro conjI)
qed

lemma table_all_total: "total_muertes (map_fig (update_all table_all (Some (StrV ''_ALL_'')))) = 3"
  by code_simp

lemma table_all_department_totals: "department_totals table_all = 4"
  by code_simp

text \<open>
  With a department called \<open>_ALL_\<close> in the geography table, the run for that name is not
  restricted and counts all three records, the run for the other department counts one:
  the sum is four, the total for all departments three.
\<close>

theorem department_totals_partition_counterexample:
  "total_muertes (map_fig (update_all table_all (Some (StrV ''_ALL_'')))) \<noteq>
   department_totals table_all"
  unfolding table_all_total table_all_department_totals by simp

text \<open>
  C10. A value of the filter that Python takes for false, in particular \<open>None\<close> and the
  empty string, restricts nothing: the callback works on the whole table and returns
  the same outputs as for \<open>_ALL_\<close>.
\<close>

theorem falsy_filter_is_all:
  "\<not> truthy None \<and> \<not> truthy (Some (StrV [])) \<and>
   (\<not> truthy selected_dept \<longrightarrow>
      filter_dept df selected_dept = df \<and>
      update_all df selected_dept = update_all df (Some (StrV ''_ALL_'')))"
proof -
  have "update_all df selected_dept = update_all df (Some (StrV ''_ALL_''))"
    if "\<not> truthy selected_dept"
    using that by (simp add: update_all_def filter_dept_falsy filter_dept_all)
  then show ?thesis by (simp add: truthy_def filter_dept_falsy)
qed

theorem falsy_filter_is_all_witness:
  "\<not> truthy None \<and>
   filter_dept table_ex None = table_ex \<and>
   update_all table_ex None = update_all table_ex (Some (StrV ''_ALL_'')) \<and>
   \<not> truthy (Some (StrV [])) \<and>
   filter_dept table_ex (Some (StrV [])) = table_ex \<and>
   update_all table_ex (Some (StrV [])) = update_all table_ex (Some (StrV ''_ALL_''))"
  using falsy_filter_is_all [of None table_ex] falsy_filter_is_all [of "Some (StrV [])" table_ex]
  by blast

section \<open>The page: properties\<close>





end
